theory Spec2Isabelle
  imports Main
begin

section \<open>Values of the tree\<close>

text \<open>
  The exceptions the matching code of \<^verbatim>\<open>libcst/matchers/_matcher_base.py\<close> can raise
  by itself: an attribute that an object does not have, \<^verbatim>\<open>dataclasses.fields\<close> called on
  something that is not a dataclass, the two \<^verbatim>\<open>raise Exception("Logic error ...")\<close>
  statements, and the exceptions of the constructors.
\<close>

datatype error =
    AttributeError
  | TypeError
  | LogicError
  | CombinationError
  | InvertError
  | NegativeCount

text \<open>
  \<^verbatim>\<open>_AttributeValueT = Optional[Union[MaybeSentinel, CSTNode, str, bool]]\<close>, joined with
  \<^verbatim>\<open>RemovalSentinel\<close>, which the public functions accept as well. A node carries the
  name of its class and its attributes. An attribute holds one such value or a sequence
  of them (\<^verbatim>\<open>Union[_AttributeValueT, Sequence[_AttributeValueT]]\<close>).
\<close>

datatype attr_value =
    VNone
  | VBool bool
  | VStr string
  | VMaybe
  | VRemoval
  | VNode string "(string \<times> field_value) list"
and field_value =
    Single attr_value
  | Seq "attr_value list"

type_synonym provider = string

type_synonym captures = "string \<rightharpoonup> field_value"

type_synonym outcome = "error + captures option"

text \<open>
  A matcher sequence is a Python list or a tuple; which one shows only in the name of
  its class.
\<close>

datatype seqkind = PyList | PyTuple

text \<open>
  The matchers. \<open>DoNotCare\<close> is \<^verbatim>\<open>DoNotCareSentinel.DEFAULT\<close>; \<open>MNone\<close>, \<open>MStr\<close>,
  \<open>MBool\<close> and \<open>MSeq\<close> are the plain Python values \<^verbatim>\<open>None\<close>, a \<^verbatim>\<open>str\<close>, a \<^verbatim>\<open>bool\<close>
  and a sequence of matchers used as attribute matchers; \<open>Concrete\<close> is an instance of a
  generated matcher dataclass, with the name of the class and its fields in the order of
  \<^verbatim>\<open>dataclasses.fields\<close>. Callbacks are total functions: they return normally. The
  parameter \<open>'v\<close> is the type of metadata values.
\<close>

datatype 'v matcher =
    DoNotCare
  | MNone
  | MStr string
  | MBool bool
  | MSeq seqkind "'v matcher list"
  | Concrete string "(string \<times> 'v matcher) list"
  | OneOf "'v matcher list"
  | AllOf "'v matcher list"
  | InverseOf "'v matcher"
  | ExtractMatchingNode "'v matcher" string
  | MatchIfTrue "field_value \<Rightarrow> bool"
  | MatchMetadata provider 'v
  | MatchMetadataIfTrue provider "'v \<Rightarrow> bool"
  | AtLeastN "'v matcher" int
  | AtMostN "'v matcher" int

text \<open>
  \<^verbatim>\<open>metadata_lookup\<close>: \<open>None\<close> stands for \<^verbatim>\<open>_METADATA_MISSING_SENTINEL\<close>.
\<close>

type_synonym 'v metadata_lookup = "provider \<Rightarrow> attr_value \<Rightarrow> 'v option"

subsection \<open>Python's view of the values\<close>

text \<open>\<^verbatim>\<open>node.__class__.__name__\<close>.\<close>

fun class_name :: "attr_value \<Rightarrow> string" where
  "class_name VNone = ''NoneType''"
| "class_name (VBool b) = ''bool''"
| "class_name (VStr s) = ''str''"
| "class_name VMaybe = ''MaybeSentinel''"
| "class_name VRemoval = ''RemovalSentinel''"
| "class_name (VNode c fs) = c"

text \<open>\<^verbatim>\<open>matcher.__class__.__name__\<close>.\<close>

fun matcher_class_name :: "'v matcher \<Rightarrow> string" where
  "matcher_class_name DoNotCare = ''DoNotCareSentinel''"
| "matcher_class_name MNone = ''NoneType''"
| "matcher_class_name (MStr s) = ''str''"
| "matcher_class_name (MBool b) = ''bool''"
| "matcher_class_name (MSeq PyList ms) = ''list''"
| "matcher_class_name (MSeq PyTuple ms) = ''tuple''"
| "matcher_class_name (Concrete c fs) = c"
| "matcher_class_name (OneOf opts) = ''OneOf''"
| "matcher_class_name (AllOf opts) = ''AllOf''"
| "matcher_class_name (InverseOf m) = ''_InverseOf''"
| "matcher_class_name (ExtractMatchingNode m name) = ''_ExtractMatchingNode''"
| "matcher_class_name (MatchIfTrue f) = ''MatchIfTrue''"
| "matcher_class_name (MatchMetadata p v) = ''MatchMetadata''"
| "matcher_class_name (MatchMetadataIfTrue p f) = ''MatchMetadataIfTrue''"
| "matcher_class_name (AtLeastN m n) = ''AtLeastN''"
| "matcher_class_name (AtMostN m n) = ''AtMostN''"

text \<open>\<^verbatim>\<open>isinstance(node, MaybeSentinel)\<close>, \<^verbatim>\<open>isinstance(matcher, _InverseOf)\<close>,
  \<^verbatim>\<open>isinstance(desired, DoNotCareSentinel)\<close>.\<close>

fun is_MaybeSentinel :: "attr_value \<Rightarrow> bool" where
  "is_MaybeSentinel VMaybe = True"
| "is_MaybeSentinel v = False"

fun is_InverseOf :: "'v matcher \<Rightarrow> bool" where
  "is_InverseOf (InverseOf m) = True"
| "is_InverseOf m = False"

fun is_DoNotCare :: "'v matcher \<Rightarrow> bool" where
  "is_DoNotCare DoNotCare = True"
| "is_DoNotCare m = False"

text \<open>
  \<^verbatim>\<open>isinstance(node, collections.abc.Sequence)\<close> holds of a list, of a tuple and of a
  \<^verbatim>\<open>str\<close>, whose elements are its one-character strings. \<open>sequence_view\<close> gives the
  elements, and whether they are those of a \<^verbatim>\<open>str\<close>; \<open>sequence_object\<close> is the Python
  object that such a sequence, or a slice of it, is.
\<close>

datatype seq_view =
    NotSequence attr_value
  | IsSequence bool "attr_value list"

fun sequence_view :: "field_value \<Rightarrow> seq_view" where
  "sequence_view (Seq vs) = IsSequence False vs"
| "sequence_view (Single (VStr s)) = IsSequence True (map (\<lambda>c. VStr [c]) s)"
| "sequence_view (Single v) = NotSequence v"

fun str_of :: "attr_value \<Rightarrow> string" where
  "str_of (VStr s) = s"
| "str_of v = []"

fun sequence_object :: "bool \<Rightarrow> attr_value list \<Rightarrow> field_value" where
  "sequence_object True vs = Single (VStr (concat (map str_of vs)))"
| "sequence_object False vs = Seq vs"

text \<open>The elements of a matcher that is a \<^verbatim>\<open>collections.abc.Sequence\<close>.\<close>

fun matcher_sequence :: "'v matcher \<Rightarrow> 'v matcher list option" where
  "matcher_sequence (MSeq k ms) = Some ms"
| "matcher_sequence (MStr s) = Some (map (\<lambda>c. MStr [c]) s)"
| "matcher_sequence m = None"

text \<open>\<^verbatim>\<open>getattr(node, field.name)\<close>: only a node has the attributes of its class.\<close>

fun getattr :: "attr_value \<Rightarrow> string \<Rightarrow> error + field_value" where
  "getattr (VNode c fs) name =
     (case map_of fs name of None \<Rightarrow> Inl AttributeError | Some v \<Rightarrow> Inr v)"
| "getattr v name = Inl AttributeError"

text \<open>
  The test of the base case of \<^verbatim>\<open>_sequence_matches\<close>:
  \<^verbatim>\<open>(isinstance(m, AtLeastN) and m.n == 0) or isinstance(m, AtMostN)\<close>.
\<close>

fun matches_no_node :: "'v matcher \<Rightarrow> bool" where
  "matches_no_node (AtLeastN m n) = (n = 0)"
| "matches_no_node (AtMostN m n) = True"
| "matches_no_node m = False"

text \<open>
  The elements of a matcher sequence that \<^verbatim>\<open>_sequence_matches\<close> hands to \<^verbatim>\<open>_matches\<close>
  at once: every matcher but \<^verbatim>\<open>DoNotCare()\<close>, the quantifiers and a
  \<^verbatim>\<open>_ExtractMatchingNode\<close>.
\<close>

fun ordinary_element :: "'v matcher \<Rightarrow> bool" where
  "ordinary_element DoNotCare = False"
| "ordinary_element (AtLeastN m n) = False"
| "ordinary_element (AtMostN m n) = False"
| "ordinary_element (ExtractMatchingNode m name) = False"
| "ordinary_element m = True"

subsection \<open>The size of a matcher\<close>

text \<open>
  The measure of the recursion of the matching functions. It does not depend on the count
  of a quantifier. A matcher that is a \<^verbatim>\<open>str\<close> outweighs the one-character matchers it
  is a sequence of; \<open>node_size\<close> is its weight where it is matched against one value.
\<close>

fun matcher_size :: "'v matcher \<Rightarrow> nat" where
  "matcher_size DoNotCare = 1"
| "matcher_size MNone = 1"
| "matcher_size (MStr s) = 2 * length s + 2"
| "matcher_size (MBool b) = 1"
| "matcher_size (MSeq k ms) = Suc (sum_list (map (\<lambda>m. Suc (matcher_size m)) ms))"
| "matcher_size (Concrete c fs) = Suc (sum_list (map (\<lambda>f. Suc (matcher_size (snd f))) fs))"
| "matcher_size (OneOf opts) = Suc (sum_list (map (\<lambda>m. Suc (matcher_size m)) opts))"
| "matcher_size (AllOf opts) = Suc (sum_list (map (\<lambda>m. Suc (matcher_size m)) opts))"
| "matcher_size (InverseOf m) = Suc (matcher_size m)"
| "matcher_size (ExtractMatchingNode m name) = Suc (matcher_size m)"
| "matcher_size (MatchIfTrue f) = 1"
| "matcher_size (MatchMetadata p v) = 1"
| "matcher_size (MatchMetadataIfTrue p f) = 1"
| "matcher_size (AtLeastN m n) = Suc (matcher_size m)"
| "matcher_size (AtMostN m n) = Suc (matcher_size m)"

fun node_size :: "'v matcher \<Rightarrow> nat" where
  "node_size (MStr s) = 1"
| "node_size m = matcher_size m"

definition options_size :: "'v matcher list \<Rightarrow> nat" where
  "options_size ms = sum_list (map (\<lambda>m. Suc (matcher_size m)) ms)"

definition fields_size :: "(string \<times> 'v matcher) list \<Rightarrow> nat" where
  "fields_size fs = sum_list (map (\<lambda>f. Suc (matcher_size (snd f))) fs)"

definition sequence_size :: "'v matcher list \<Rightarrow> nat" where
  "sequence_size ms = sum_list (map (\<lambda>m. Suc (node_size m)) ms)"

section \<open>Matching\<close>

text \<open>
  The five matching functions of the module, \<^verbatim>\<open>_sequence_matches\<close>,
  \<^verbatim>\<open>_attribute_matches\<close>, \<^verbatim>\<open>_metadata_matches\<close>, \<^verbatim>\<open>_node_matches\<close> and \<^verbatim>\<open>_matches\<close>
  (here \<open>matches'\<close>), and their loops: \<open>attribute_oneof\<close> and \<open>attribute_allof\<close> are the
  loops of \<^verbatim>\<open>_attribute_matches\<close> over the options of a \<^verbatim>\<open>OneOf\<close> and of an \<^verbatim>\<open>AllOf\<close>
  for a sequence, \<open>metadata_oneof\<close> and \<open>metadata_allof\<close> those of \<^verbatim>\<open>_metadata_matches\<close>,
  \<open>matches_oneof\<close> and \<open>matches_allof\<close> those of \<^verbatim>\<open>_matches\<close>, \<open>node_fields\<close> the loop of
  \<^verbatim>\<open>_node_matches\<close> over \<^verbatim>\<open>fields(matcher)\<close>. \<open>direct_matches\<close> is the end of
  \<^verbatim>\<open>_sequence_matches\<close>, from \<^verbatim>\<open>match_capture = _matches(node, matcher, ...)\<close> on, which
  the branches of a quantifier fall through to when they do not return.

  A result is \<open>Inl e\<close> for an exception, \<open>Inr None\<close> for \<^verbatim>\<open>None\<close> and \<open>Inr (Some c)\<close> for
  the dictionary \<open>c\<close>; \<open>c ++ d\<close> is \<^verbatim>\<open>{**c, **d}\<close>. The first argument of
  \<open>sequence_matches\<close> tells whether \<^verbatim>\<open>nodes\<close> is (a slice of) a \<^verbatim>\<open>str\<close>.

  In the loops of \<^verbatim>\<open>_attribute_matches\<close> the source evaluates \<^verbatim>\<open>matcher.func(node)\<close> for an
  option that is a \<^verbatim>\<open>MatchIfTrue\<close>, where \<^verbatim>\<open>matcher\<close> is the \<^verbatim>\<open>OneOf\<close> or \<^verbatim>\<open>AllOf\<close>
  itself, an object without an attribute \<^verbatim>\<open>func\<close>: an \<^verbatim>\<open>AttributeError\<close>.
\<close>

function
  sequence_matches :: "bool \<Rightarrow> attr_value list \<Rightarrow> 'v matcher list \<Rightarrow> 'v metadata_lookup \<Rightarrow> outcome"
and direct_matches :: "bool \<Rightarrow> attr_value \<Rightarrow> attr_value list \<Rightarrow> 'v matcher \<Rightarrow> 'v matcher list \<Rightarrow> 'v metadata_lookup \<Rightarrow> outcome"
and attribute_matches :: "field_value \<Rightarrow> 'v matcher \<Rightarrow> 'v metadata_lookup \<Rightarrow> outcome"
and attribute_oneof :: "bool \<Rightarrow> attr_value list \<Rightarrow> 'v matcher list \<Rightarrow> 'v metadata_lookup \<Rightarrow> outcome"
and attribute_allof :: "bool \<Rightarrow> attr_value list \<Rightarrow> 'v matcher list \<Rightarrow> captures \<Rightarrow> 'v metadata_lookup \<Rightarrow> outcome"
and metadata_matches :: "attr_value \<Rightarrow> 'v matcher \<Rightarrow> 'v metadata_lookup \<Rightarrow> outcome"
and metadata_oneof :: "attr_value \<Rightarrow> 'v matcher list \<Rightarrow> 'v metadata_lookup \<Rightarrow> outcome"
and metadata_allof :: "attr_value \<Rightarrow> 'v matcher list \<Rightarrow> captures \<Rightarrow> 'v metadata_lookup \<Rightarrow> outcome"
and node_matches :: "attr_value \<Rightarrow> 'v matcher \<Rightarrow> 'v metadata_lookup \<Rightarrow> outcome"
and node_fields :: "attr_value \<Rightarrow> (string \<times> 'v matcher) list \<Rightarrow> captures \<Rightarrow> 'v metadata_lookup \<Rightarrow> outcome"
and matches' :: "attr_value \<Rightarrow> 'v matcher \<Rightarrow> 'v metadata_lookup \<Rightarrow> outcome"
and matches_oneof :: "attr_value \<Rightarrow> 'v matcher list \<Rightarrow> 'v metadata_lookup \<Rightarrow> outcome"
and matches_allof :: "attr_value \<Rightarrow> 'v matcher list \<Rightarrow> captures \<Rightarrow> 'v metadata_lookup \<Rightarrow> outcome"
where
  "sequence_matches s [] [] lookup = Inr (Some Map.empty)"
| "sequence_matches s [] (m # ms) lookup =
     Inr (if list_all matches_no_node (m # ms) then Some Map.empty else None)"
| "sequence_matches s (node # nodes) [] lookup = Inr None"
| "sequence_matches s (node # nodes) (matcher # rest) lookup =
     (case matcher of
        DoNotCare \<Rightarrow> sequence_matches s nodes rest lookup
      | AtMostN inner n \<Rightarrow>
          (case (if n > 0
                 then (case attribute_matches (Single node) inner lookup of
                         Inl e \<Rightarrow> Inl e
                       | Inr None \<Rightarrow> Inr None
                       | Inr (Some attribute_capture) \<Rightarrow>
                           (case sequence_matches s nodes (AtMostN inner (n - 1) # rest) lookup of
                              Inl e \<Rightarrow> Inl e
                            | Inr None \<Rightarrow> Inr None
                            | Inr (Some sequence_capture) \<Rightarrow>
                                Inr (Some (attribute_capture ++ sequence_capture))))
                 else Inr None) of
             Inl e \<Rightarrow> Inl e
           | Inr (Some c) \<Rightarrow> Inr (Some c)
           | Inr None \<Rightarrow>
               (case sequence_matches s (node # nodes) rest lookup of
                  Inl e \<Rightarrow> Inl e
                | Inr (Some sequence_capture) \<Rightarrow> Inr (Some sequence_capture)
                | Inr None \<Rightarrow> direct_matches s node nodes matcher rest lookup))
      | AtLeastN inner n \<Rightarrow>
          (if n > 0
           then (case (case attribute_matches (Single node) inner lookup of
                         Inl e \<Rightarrow> Inl e
                       | Inr None \<Rightarrow> Inr None
                       | Inr (Some attribute_capture) \<Rightarrow>
                           (case sequence_matches s nodes (AtLeastN inner (n - 1) # rest) lookup of
                              Inl e \<Rightarrow> Inl e
                            | Inr None \<Rightarrow> Inr None
                            | Inr (Some sequence_capture) \<Rightarrow>
                                Inr (Some (attribute_capture ++ sequence_capture)))) of
                   Inl e \<Rightarrow> Inl e
                 | Inr (Some c) \<Rightarrow> Inr (Some c)
                 | Inr None \<Rightarrow> direct_matches s node nodes matcher rest lookup)
           else (case (case attribute_matches (Single node) inner lookup of
                         Inl e \<Rightarrow> Inl e
                       | Inr None \<Rightarrow> Inr None
                       | Inr (Some attribute_capture) \<Rightarrow>
                           (case sequence_matches s nodes (matcher # rest) lookup of
                              Inl e \<Rightarrow> Inl e
                            | Inr None \<Rightarrow> Inr None
                            | Inr (Some sequence_capture) \<Rightarrow>
                                Inr (Some (attribute_capture ++ sequence_capture)))) of
                   Inl e \<Rightarrow> Inl e
                 | Inr (Some c) \<Rightarrow> Inr (Some c)
                 | Inr None \<Rightarrow>
                     (case sequence_matches s (node # nodes) rest lookup of
                        Inl e \<Rightarrow> Inl e
                      | Inr (Some sequence_capture) \<Rightarrow> Inr (Some sequence_capture)
                      | Inr None \<Rightarrow> direct_matches s node nodes matcher rest lookup)))
      | ExtractMatchingNode inner name \<Rightarrow>
          (case sequence_matches s (node # nodes) (inner # rest) lookup of
             Inl e \<Rightarrow> Inl e
           | Inr None \<Rightarrow> Inr None
           | Inr (Some sequence_capture) \<Rightarrow>
               Inr (Some ([name \<mapsto> sequence_object s (node # nodes)] ++ sequence_capture)))
      | _ \<Rightarrow> direct_matches s node nodes matcher rest lookup)"
| "direct_matches s node nodes matcher rest lookup =
     (case matches' node matcher lookup of
        Inl e \<Rightarrow> Inl e
      | Inr None \<Rightarrow> Inr None
      | Inr (Some match_capture) \<Rightarrow>
          (case sequence_matches s nodes rest lookup of
             Inl e \<Rightarrow> Inl e
           | Inr None \<Rightarrow> Inr None
           | Inr (Some sequence_capture) \<Rightarrow> Inr (Some (match_capture ++ sequence_capture))))"
| "attribute_matches node matcher lookup =
     (case matcher of
        DoNotCare \<Rightarrow> Inr (Some Map.empty)
      | InverseOf inner \<Rightarrow>
          (case attribute_matches node inner lookup of
             Inl e \<Rightarrow> Inl e
           | Inr None \<Rightarrow> Inr (Some Map.empty)
           | Inr (Some c) \<Rightarrow> Inr None)
      | ExtractMatchingNode inner name \<Rightarrow>
          (case attribute_matches node inner lookup of
             Inl e \<Rightarrow> Inl e
           | Inr None \<Rightarrow> Inr None
           | Inr (Some attribute_capture) \<Rightarrow> Inr (Some (attribute_capture(name \<mapsto> node))))
      | MatchIfTrue func \<Rightarrow> Inr (if func node then Some Map.empty else None)
      | MNone \<Rightarrow> Inr (if node = Single VNone then Some Map.empty else None)
      | MStr text \<Rightarrow> Inr (if node = Single (VStr text) then Some Map.empty else None)
      | MBool b \<Rightarrow> Inr (if node = Single (VBool b) then Some Map.empty else None)
      | OneOf options \<Rightarrow>
          (case sequence_view node of
             IsSequence s nodes \<Rightarrow> attribute_oneof s nodes options lookup
           | NotSequence v \<Rightarrow> matches' v matcher lookup)
      | AllOf options \<Rightarrow>
          (case sequence_view node of
             IsSequence s nodes \<Rightarrow> attribute_allof s nodes options Map.empty lookup
           | NotSequence v \<Rightarrow> matches' v matcher lookup)
      | MSeq k matchers \<Rightarrow>
          (case sequence_view node of
             IsSequence s nodes \<Rightarrow> sequence_matches s nodes matchers lookup
           | NotSequence v \<Rightarrow> matches' v matcher lookup)
      | _ \<Rightarrow>
          (case sequence_view node of
             IsSequence s nodes \<Rightarrow> Inr None
           | NotSequence v \<Rightarrow> matches' v matcher lookup))"
| "attribute_oneof s nodes [] lookup = Inr None"
| "attribute_oneof s nodes (m # options) lookup =
     (case matcher_sequence m of
        Some matchers \<Rightarrow>
          (case sequence_matches s nodes matchers lookup of
             Inl e \<Rightarrow> Inl e
           | Inr (Some sequence_capture) \<Rightarrow> Inr (Some sequence_capture)
           | Inr None \<Rightarrow> attribute_oneof s nodes options lookup)
      | None \<Rightarrow>
          (case m of
             MatchIfTrue func \<Rightarrow> Inl AttributeError
           | _ \<Rightarrow> attribute_oneof s nodes options lookup))"
| "attribute_allof s nodes [] all_captures lookup = Inr (Some all_captures)"
| "attribute_allof s nodes (m # options) all_captures lookup =
     (case matcher_sequence m of
        Some matchers \<Rightarrow>
          (case sequence_matches s nodes matchers lookup of
             Inl e \<Rightarrow> Inl e
           | Inr None \<Rightarrow> Inr None
           | Inr (Some sequence_capture) \<Rightarrow>
               attribute_allof s nodes options (all_captures ++ sequence_capture) lookup)
      | None \<Rightarrow>
          (case m of
             MatchIfTrue func \<Rightarrow> Inl AttributeError
           | _ \<Rightarrow> Inr None))"
| "metadata_matches node metadata lookup =
     (case metadata of
        OneOf options \<Rightarrow> metadata_oneof node options lookup
      | AllOf options \<Rightarrow> metadata_allof node options Map.empty lookup
      | InverseOf inner \<Rightarrow>
          (case metadata_matches node inner lookup of
             Inl e \<Rightarrow> Inl e
           | Inr None \<Rightarrow> Inr (Some Map.empty)
           | Inr (Some c) \<Rightarrow> Inr None)
      | ExtractMatchingNode inner name \<Rightarrow>
          (case metadata_matches node inner lookup of
             Inl e \<Rightarrow> Inl e
           | Inr None \<Rightarrow> Inr None
           | Inr (Some metadata_capture) \<Rightarrow>
               Inr (Some (metadata_capture(name \<mapsto> Single node))))
      | MatchMetadataIfTrue key func \<Rightarrow>
          (case lookup key node of
             None \<Rightarrow> Inr None
           | Some actual_value \<Rightarrow> Inr (if func actual_value then Some Map.empty else None))
      | MatchMetadata key val \<Rightarrow>
          (case lookup key node of
             None \<Rightarrow> Inr None
           | Some actual_value \<Rightarrow> Inr (if actual_value = val then Some Map.empty else None))
      | _ \<Rightarrow> Inl LogicError)"
| "metadata_oneof node [] lookup = Inr None"
| "metadata_oneof node (m # options) lookup =
     (case metadata_matches node m lookup of
        Inl e \<Rightarrow> Inl e
      | Inr (Some metadata_capture) \<Rightarrow> Inr (Some metadata_capture)
      | Inr None \<Rightarrow> metadata_oneof node options lookup)"
| "metadata_allof node [] all_captures lookup = Inr (Some all_captures)"
| "metadata_allof node (m # options) all_captures lookup =
     (case metadata_matches node m lookup of
        Inl e \<Rightarrow> Inl e
      | Inr None \<Rightarrow> Inr None
      | Inr (Some metadata_capture) \<Rightarrow>
          metadata_allof node options (all_captures ++ metadata_capture) lookup)"
| "node_matches node matcher lookup =
     (case matcher of
        InverseOf inner \<Rightarrow>
          (case node_matches node inner lookup of
             Inl e \<Rightarrow> Inl e
           | Inr None \<Rightarrow> Inr (Some Map.empty)
           | Inr (Some c) \<Rightarrow> Inr None)
      | ExtractMatchingNode inner name \<Rightarrow>
          (case node_matches node inner lookup of
             Inl e \<Rightarrow> Inl e
           | Inr None \<Rightarrow> Inr None
           | Inr (Some node_capture) \<Rightarrow> Inr (Some (node_capture(name \<mapsto> Single node))))
      | MatchIfTrue func \<Rightarrow> Inr (if func (Single node) then Some Map.empty else None)
      | MatchMetadata key val \<Rightarrow> metadata_matches node matcher lookup
      | MatchMetadataIfTrue key func \<Rightarrow> metadata_matches node matcher lookup
      | Concrete c fs \<Rightarrow>
          (if class_name node \<noteq> c then Inr None
           else node_fields node fs Map.empty lookup)
      | _ \<Rightarrow>
          (if class_name node \<noteq> matcher_class_name matcher then Inr None
           else Inl TypeError))"
| "node_fields node [] all_captures lookup = Inr (Some all_captures)"
| "node_fields node (field # fs) all_captures lookup =
     (if fst field = ''_metadata'' then node_fields node fs all_captures lookup
      else if fst field = ''metadata''
      then (if is_DoNotCare (snd field) then node_fields node fs all_captures lookup
            else (case metadata_matches node (snd field) lookup of
                    Inl e \<Rightarrow> Inl e
                  | Inr None \<Rightarrow> Inr None
                  | Inr (Some metadata_capture) \<Rightarrow>
                      node_fields node fs (all_captures ++ metadata_capture) lookup))
      else (case getattr node (fst field) of
              Inl e \<Rightarrow> Inl e
            | Inr actual \<Rightarrow>
                (case attribute_matches actual (snd field) lookup of
                   Inl e \<Rightarrow> Inl e
                 | Inr None \<Rightarrow> Inr None
                 | Inr (Some attribute_capture) \<Rightarrow>
                     node_fields node fs (all_captures ++ attribute_capture) lookup)))"
| "matches' node matcher lookup =
     (if is_MaybeSentinel node
      then Inr (if is_InverseOf matcher then Some Map.empty else None)
      else (case matcher of
              OneOf options \<Rightarrow> matches_oneof node options lookup
            | AllOf options \<Rightarrow> matches_allof node options Map.empty lookup
            | _ \<Rightarrow> node_matches node matcher lookup))"
| "matches_oneof node [] lookup = Inr None"
| "matches_oneof node (m # options) lookup =
     (case node_matches node m lookup of
        Inl e \<Rightarrow> Inl e
      | Inr (Some node_capture) \<Rightarrow> Inr (Some node_capture)
      | Inr None \<Rightarrow> matches_oneof node options lookup)"
| "matches_allof node [] all_captures lookup = Inr (Some all_captures)"
| "matches_allof node (m # options) all_captures lookup =
     (case node_matches node m lookup of
        Inl e \<Rightarrow> Inl e
      | Inr None \<Rightarrow> Inr None
      | Inr (Some node_capture) \<Rightarrow>
          matches_allof node options (all_captures ++ node_capture) lookup)"
  by pat_completeness auto

section \<open>The public functions\<close>

text \<open>
  \<^verbatim>\<open>metadata_resolver\<close>: \<^verbatim>\<open>None\<close>, a \<^verbatim>\<open>MetadataWrapper\<close> or a \<^verbatim>\<open>MetadataDependent\<close>.
  Both classes live outside this module; a wrapper is taken as its \<^verbatim>\<open>resolve\<close>
  (provider to the table of the nodes), a dependent as its \<^verbatim>\<open>get_metadata\<close>, with
  \<open>None\<close> where the default \<^verbatim>\<open>_METADATA_MISSING_SENTINEL\<close> comes back. The fetcher of a
  wrapper keeps the tables it has resolved; with \<^verbatim>\<open>resolve\<close> a function of the provider
  the fetched values are those of \<open>resolve\<close>.
\<close>

datatype 'v resolver =
    NoResolver
  | MetadataWrapper "provider \<Rightarrow> attr_value \<Rightarrow> 'v option"
  | MetadataDependent "provider \<Rightarrow> attr_value \<Rightarrow> 'v option"

fun construct_metadata_fetcher :: "'v resolver \<Rightarrow> 'v metadata_lookup" where
  "construct_metadata_fetcher NoResolver = (\<lambda>provider node. None)"
| "construct_metadata_fetcher (MetadataWrapper resolve) = (\<lambda>provider node. resolve provider node)"
| "construct_metadata_fetcher (MetadataDependent get_metadata) =
     (\<lambda>provider node. get_metadata provider node)"

text \<open>\<^verbatim>\<open>isinstance(node, RemovalSentinel)\<close> and the two tests of the matcher at top level:
  \<^verbatim>\<open>isinstance(matcher, (AtLeastN, AtMostN, MatchIfTrue, _BaseMetadataMatcher))\<close> in
  \<^verbatim>\<open>extract\<close>, \<^verbatim>\<open>isinstance(matcher, (AtLeastN, AtMostN))\<close> in \<^verbatim>\<open>_find_or_extract_all\<close>.\<close>

fun is_RemovalSentinel :: "attr_value \<Rightarrow> bool" where
  "is_RemovalSentinel VRemoval = True"
| "is_RemovalSentinel v = False"

fun forbidden_at_top_level :: "'v matcher \<Rightarrow> bool" where
  "forbidden_at_top_level (AtLeastN m n) = True"
| "forbidden_at_top_level (AtMostN m n) = True"
| "forbidden_at_top_level (MatchIfTrue f) = True"
| "forbidden_at_top_level (MatchMetadata p v) = True"
| "forbidden_at_top_level (MatchMetadataIfTrue p f) = True"
| "forbidden_at_top_level m = False"

fun is_wildcard :: "'v matcher \<Rightarrow> bool" where
  "is_wildcard (AtLeastN m n) = True"
| "is_wildcard (AtMostN m n) = True"
| "is_wildcard m = False"

text \<open>\<^verbatim>\<open>extract\<close>, named \<open>extract_py\<close> here since \<open>extract\<close> is a command of Isabelle.\<close>

definition extract_py :: "attr_value \<Rightarrow> 'v matcher \<Rightarrow> 'v resolver \<Rightarrow> outcome" where
  "extract_py node matcher metadata_resolver =
     (if is_RemovalSentinel node then Inr None
      else if forbidden_at_top_level matcher then Inr None
      else matches' node matcher (construct_metadata_fetcher metadata_resolver))"

definition matches :: "attr_value \<Rightarrow> 'v matcher \<Rightarrow> 'v resolver \<Rightarrow> error + bool" where
  "matches node matcher metadata_resolver =
     (case extract_py node matcher metadata_resolver of
        Inl e \<Rightarrow> Inl e
      | Inr r \<Rightarrow> Inr (r \<noteq> None))"

text \<open>
  Modelled from the spec: \<^verbatim>\<open>tree.visit(finder)\<close>, the traversal of \<^verbatim>\<open>CSTNode\<close>, which is
  not in this module. The spec has a full pre-order traversal that visits every node,
  whatever the outcome of the match; the children of a node are the nodes in its
  attributes, in the order of the attributes. \<^verbatim>\<open>None\<close>, strings and booleans have no
  method \<^verbatim>\<open>visit\<close>.
\<close>

fun visit_order :: "attr_value \<Rightarrow> attr_value list"
and visit_field :: "field_value \<Rightarrow> attr_value list" where
  "visit_order (VNode c fs) = VNode c fs # concat (map (\<lambda>f. visit_field (snd f)) fs)"
| "visit_order v = []"
| "visit_field (Single v) = visit_order v"
| "visit_field (Seq vs) = concat (map visit_order vs)"

fun visit :: "attr_value \<Rightarrow> error + attr_value list" where
  "visit (VNode c fs) = Inr (visit_order (VNode c fs))"
| "visit v = Inl AttributeError"

text \<open>\<^verbatim>\<open>_FindAllVisitor.on_visit\<close> along the traversal: \<^verbatim>\<open>found_nodes\<close> and
  \<^verbatim>\<open>extracted_nodes\<close>.\<close>

fun on_visit_all ::
  "attr_value list \<Rightarrow> 'v matcher \<Rightarrow> 'v metadata_lookup \<Rightarrow>
     error + (attr_value list \<times> captures list)" where
  "on_visit_all [] matcher lookup = Inr ([], [])"
| "on_visit_all (node # nodes) matcher lookup =
     (case matches' node matcher lookup of
        Inl e \<Rightarrow> Inl e
      | Inr None \<Rightarrow> on_visit_all nodes matcher lookup
      | Inr (Some m) \<Rightarrow>
          (case on_visit_all nodes matcher lookup of
             Inl e \<Rightarrow> Inl e
           | Inr (found_nodes, extracted_nodes) \<Rightarrow>
               Inr (node # found_nodes, m # extracted_nodes)))"

text \<open>The \<^verbatim>\<open>tree\<close> of \<^verbatim>\<open>findall\<close> and \<^verbatim>\<open>extractall\<close>: a node or a sentinel, or a
  \<^verbatim>\<open>MetadataWrapper\<close>, given by its module and its \<^verbatim>\<open>resolve\<close>.\<close>

datatype 'v tree =
    Tree attr_value
  | WrappedTree attr_value "provider \<Rightarrow> attr_value \<Rightarrow> 'v option"

fun is_sentinel_tree :: "'v tree \<Rightarrow> bool" where
  "is_sentinel_tree (Tree VRemoval) = True"
| "is_sentinel_tree (Tree VMaybe) = True"
| "is_sentinel_tree t = False"

fun tree_root :: "'v tree \<Rightarrow> attr_value" where
  "tree_root (Tree node) = node"
| "tree_root (WrappedTree module resolve) = module"

fun tree_resolver :: "'v tree \<Rightarrow> 'v resolver \<Rightarrow> 'v resolver" where
  "tree_resolver (WrappedTree module resolve) NoResolver = MetadataWrapper resolve"
| "tree_resolver t metadata_resolver = metadata_resolver"

definition find_or_extract_all ::
  "'v tree \<Rightarrow> 'v matcher \<Rightarrow> 'v resolver \<Rightarrow> error + (attr_value list \<times> captures list)" where
  "find_or_extract_all tree matcher metadata_resolver =
     (if is_sentinel_tree tree then Inr ([], [])
      else if is_wildcard matcher then Inr ([], [])
      else (case visit (tree_root tree) of
              Inl e \<Rightarrow> Inl e
            | Inr nodes \<Rightarrow>
                on_visit_all nodes matcher
                  (construct_metadata_fetcher (tree_resolver tree metadata_resolver))))"

definition findall :: "'v tree \<Rightarrow> 'v matcher \<Rightarrow> 'v resolver \<Rightarrow> error + attr_value list" where
  "findall tree matcher metadata_resolver =
     (case find_or_extract_all tree matcher metadata_resolver of
        Inl e \<Rightarrow> Inl e
      | Inr (nodes, extractions) \<Rightarrow> Inr nodes)"

definition extractall :: "'v tree \<Rightarrow> 'v matcher \<Rightarrow> 'v resolver \<Rightarrow> error + captures list" where
  "extractall tree matcher metadata_resolver =
     (case find_or_extract_all tree matcher metadata_resolver of
        Inl e \<Rightarrow> Inl e
      | Inr (nodes, extractions) \<Rightarrow> Inr extractions)"

section \<open>Building matchers\<close>

text \<open>
  \<^verbatim>\<open>OneOf.__init__\<close> and \<^verbatim>\<open>AllOf.__init__\<close>: the loop over the options, which flattens
  an option of the same kind and refuses one of the other kind.
\<close>

fun OneOf_options :: "'v matcher list \<Rightarrow> 'v matcher list \<Rightarrow> error + 'v matcher list" where
  "OneOf_options [] actual_options = Inr actual_options"
| "OneOf_options (option # options) actual_options =
     (case option of
        AllOf os \<Rightarrow> Inl CombinationError
      | OneOf os \<Rightarrow> OneOf_options options (actual_options @ os)
      | _ \<Rightarrow> OneOf_options options (actual_options @ [option]))"

fun AllOf_options :: "'v matcher list \<Rightarrow> 'v matcher list \<Rightarrow> error + 'v matcher list" where
  "AllOf_options [] actual_options = Inr actual_options"
| "AllOf_options (option # options) actual_options =
     (case option of
        OneOf os \<Rightarrow> Inl CombinationError
      | AllOf os \<Rightarrow> AllOf_options options (actual_options @ os)
      | _ \<Rightarrow> AllOf_options options (actual_options @ [option]))"

definition OneOf_init :: "'v matcher list \<Rightarrow> error + 'v matcher" where
  "OneOf_init options =
     (case OneOf_options options [] of Inl e \<Rightarrow> Inl e | Inr actual \<Rightarrow> Inr (OneOf actual))"

definition AllOf_init :: "'v matcher list \<Rightarrow> error + 'v matcher" where
  "AllOf_init options =
     (case AllOf_options options [] of Inl e \<Rightarrow> Inl e | Inr actual \<Rightarrow> Inr (AllOf actual))"

text \<open>\<^verbatim>\<open>AtLeastN.__init__\<close> and \<^verbatim>\<open>AtMostN.__init__\<close>.\<close>

definition AtLeastN_init :: "'v matcher \<Rightarrow> int \<Rightarrow> error + 'v matcher" where
  "AtLeastN_init matcher n = (if n < 0 then Inl NegativeCount else Inr (AtLeastN matcher n))"

definition AtMostN_init :: "'v matcher \<Rightarrow> int \<Rightarrow> error + 'v matcher" where
  "AtMostN_init matcher n = (if n < 0 then Inl NegativeCount else Inr (AtMostN matcher n))"

text \<open>A list comprehension whose elements may raise: the first exception wins.\<close>

fun collect :: "(error + 'a) list \<Rightarrow> error + 'a list" where
  "collect [] = Inr []"
| "collect (r # rs) =
     (case r of
        Inl e \<Rightarrow> Inl e
      | Inr x \<Rightarrow> (case collect rs of Inl e \<Rightarrow> Inl e | Inr xs \<Rightarrow> Inr (x # xs)))"

text \<open>
  \<^verbatim>\<open>DoesNotMatch(obj)\<close>: \<^verbatim>\<open>~obj\<close> for the classes that define \<^verbatim>\<open>__invert__\<close>
  (\<^verbatim>\<open>BaseMatcherNode\<close> and so the concrete matchers, \<^verbatim>\<open>OneOf\<close>, \<^verbatim>\<open>AllOf\<close>,
  \<^verbatim>\<open>MatchIfTrue\<close>, the metadata matchers, \<^verbatim>\<open>_InverseOf\<close>, \<^verbatim>\<open>_ExtractMatchingNode\<close>),
  \<^verbatim>\<open>_InverseOf(obj)\<close> for every other object.
\<close>

fun DoesNotMatch :: "'v matcher \<Rightarrow> error + 'v matcher" where
  "DoesNotMatch (OneOf options) =
     (case collect (map DoesNotMatch options) of
        Inl e \<Rightarrow> Inl e
      | Inr inverted \<Rightarrow> AllOf_init inverted)"
| "DoesNotMatch (AllOf options) =
     (case collect (map DoesNotMatch options) of
        Inl e \<Rightarrow> Inl e
      | Inr inverted \<Rightarrow> OneOf_init inverted)"
| "DoesNotMatch (InverseOf m) = Inr m"
| "DoesNotMatch (ExtractMatchingNode m name) = Inl InvertError"
| "DoesNotMatch (MatchIfTrue func) = Inr (MatchIfTrue (\<lambda>val. \<not> func val))"
| "DoesNotMatch (MatchMetadataIfTrue key func) =
     Inr (MatchMetadataIfTrue key (\<lambda>val. \<not> func val))"
| "DoesNotMatch obj = Inr (InverseOf obj)"

text \<open>\<^verbatim>\<open>SaveMatchedNode(matcher, name)\<close>.\<close>

definition SaveMatchedNode :: "'v matcher \<Rightarrow> string \<Rightarrow> 'v matcher" where
  "SaveMatchedNode matcher name = ExtractMatchingNode matcher name"

section \<open>Termination of the matching functions\<close>

lemma node_size_le: "node_size m \<le> matcher_size m"
  by (cases m) simp_all

lemma sequence_size_le: "sequence_size ms \<le> options_size ms"
  unfolding sequence_size_def options_size_def
  by (induction ms) (simp_all add: node_size_le le_SucI add_mono)

lemma sequence_size_str: "sequence_size (map (\<lambda>c. MStr [c]) s) = 2 * length s"
  unfolding sequence_size_def by (induction s) simp_all

lemma matcher_sequence_size:
  "matcher_sequence m = Some ms \<Longrightarrow> sequence_size ms < matcher_size m"
proof (cases m)
  case (MSeq k xs)
  assume "matcher_sequence m = Some ms"
  with MSeq have "ms = xs" by simp
  with MSeq show ?thesis
    using sequence_size_le [of xs] by (simp add: options_size_def)
next
  case (MStr s)
  assume "matcher_sequence m = Some ms"
  with MStr show ?thesis by (auto simp: sequence_size_str)
qed simp_all

lemma node_size_less: "node_size m < Suc (matcher_size m + k)"
  using node_size_le [of m] by simp

lemma sequence_size_less:
  "(\<Sum>m\<leftarrow>ms. Suc (node_size m)) < Suc (\<Sum>m\<leftarrow>ms. Suc (matcher_size m))"
  using sequence_size_le [of ms] by (simp add: sequence_size_def options_size_def)

lemma matcher_sequence_less:
  "matcher_sequence m = Some ms \<Longrightarrow> (\<Sum>m\<leftarrow>ms. Suc (node_size m)) < Suc (matcher_size m + k)"
  using matcher_sequence_size [of m ms] by (simp add: sequence_size_def)

lemma all_calls_terminate:
  "All sequence_matches_direct_matches_attribute_matches_attribute_oneof_attribute_allof_metadata_matches_metadata_oneof_metadata_allof_node_matches_node_fields_matches'_matches_oneof_matches_allof_dom"
  apply (relation "inv_image (less_than <*lex*> less_than <*lex*> less_than)
    (\<lambda>x. case x of
       Inl a \<Rightarrow> (case a of
           Inl b \<Rightarrow> (case b of
               Inl (s, nodes, ms, lookup) \<Rightarrow> (sequence_size ms, 1, length nodes)
             | Inr c \<Rightarrow> (case c of
                 Inl (s, node, nodes, m, rest, lookup) \<Rightarrow> (sequence_size (m # rest), 0, 0)
               | Inr (node, m, lookup) \<Rightarrow> (matcher_size m, 3, 0)))
         | Inr b \<Rightarrow> (case b of
               Inl (s, nodes, opts, lookup) \<Rightarrow> (options_size opts, 0, 0)
             | Inr c \<Rightarrow> (case c of
                 Inl (s, nodes, opts, caps, lookup) \<Rightarrow> (options_size opts, 0, 0)
               | Inr (node, m, lookup) \<Rightarrow> (node_size m, 0, 0))))
     | Inr a \<Rightarrow> (case a of
           Inl b \<Rightarrow> (case b of
               Inl (node, opts, lookup) \<Rightarrow> (options_size opts, 0, 0)
             | Inr c \<Rightarrow> (case c of
                 Inl (node, opts, caps, lookup) \<Rightarrow> (options_size opts, 0, 0)
               | Inr (node, m, lookup) \<Rightarrow> (node_size m, 1, 0)))
         | Inr b \<Rightarrow> (case b of
               Inl c \<Rightarrow> (case c of
                 Inl (node, fs, caps, lookup) \<Rightarrow> (fields_size fs, 0, 0)
               | Inr (node, m, lookup) \<Rightarrow> (node_size m, 2, 0))
             | Inr c \<Rightarrow> (case c of
                 Inl (node, opts, lookup) \<Rightarrow> (options_size opts, 0, 0)
               | Inr (node, opts, caps, lookup) \<Rightarrow> (options_size opts, 0, 0)))))")
                      apply (intro wf_inv_image wf_lex_prod wf_less_than)
                      apply (simp_all add: options_size_def fields_size_def sequence_size_def
      node_size_less [where k = 0, simplified] node_size_less sequence_size_less matcher_sequence_less)
  done

termination sequence_matches
  by (rule all_calls_terminate)

section \<open>Exceptions while matching\<close>

text \<open>
  C1. The claim: evaluating a match never throws, whatever the value, the pattern and the
  resolver, and in particular not when a sequence-valued field is matched against a
  \<^verbatim>\<open>OneOf\<close> or an \<^verbatim>\<open>AllOf\<close> that contains a \<^verbatim>\<open>MatchIfTrue\<close>. In the code this fails: for a
  call without arguments and the pattern \<^verbatim>\<open>Call(args=OneOf(MatchIfTrue(lambda v: True)))\<close>
  the loop of \<^verbatim>\<open>_attribute_matches\<close> reaches \<^verbatim>\<open>matcher.func(node)\<close> with \<^verbatim>\<open>matcher\<close> the
  \<^verbatim>\<open>OneOf\<close>, and \<^verbatim>\<open>extract\<close> and \<^verbatim>\<open>matches\<close> raise an \<^verbatim>\<open>AttributeError\<close>.
\<close>

theorem oneof_predicate_on_sequence_raises:
  "extract_py
     (VNode ''Call'' [(''func'', Single (VNode ''Name'' [(''value'', Single (VStr ''f''))])),
                      (''args'', Seq [])])
     (Concrete ''Call'' [(''func'', DoNotCare), (''args'', OneOf [MatchIfTrue (\<lambda>v. True)])])
     (NoResolver :: unit resolver) = Inl AttributeError
   \<and> matches
     (VNode ''Call'' [(''func'', Single (VNode ''Name'' [(''value'', Single (VStr ''f''))])),
                      (''args'', Seq [])])
     (Concrete ''Call'' [(''func'', DoNotCare), (''args'', OneOf [MatchIfTrue (\<lambda>v. True)])])
     (NoResolver :: unit resolver) = Inl AttributeError"
  by (simp add: extract_py_def matches_def)

section \<open>A capture in a sequence\<close>

text \<open>
  C2. The claim: in \<^verbatim>\<open>_sequence_matches\<close>, when the head matcher is a capture
  (\<^verbatim>\<open>SaveMatchedNode\<close>) around an ordinary element matcher, success is decided by matching
  the head value against it, exactly one value is consumed, and on success the name of
  the capture is bound to that single head value, its key overriding the keys of the same
  name from inside the element. This is what the docstring of \<^verbatim>\<open>extract\<close> says (the value
  is the node that was present at that location, parent nodes take priority over child
  nodes) and what \<^verbatim>\<open>_attribute_matches\<close>, \<^verbatim>\<open>_node_matches\<close> and \<^verbatim>\<open>_metadata_matches\<close> do. In
  the code of \<^verbatim>\<open>_sequence_matches\<close> it fails twice. For the one value \<^verbatim>\<open>Name\<close> and
  \<^verbatim>\<open>[SaveMatchedNode(Name(), "x")]\<close> the name is bound to the sequence of the values that
  were left, not to the node; for \<^verbatim>\<open>Name\<close>, \<^verbatim>\<open>None\<close> and
  \<^verbatim>\<open>[SaveMatchedNode(Name(), "x"), DoNotCare()]\<close> that sequence also holds the value
  the next matcher consumes. For
  \<^verbatim>\<open>[SaveMatchedNode(Name(value=SaveMatchedNode(DoNotCare(), "x")), "x")]\<close> the binding of
  the inner capture is the one that stays.
\<close>

theorem capture_of_element_binds_remaining_sequence:
  "sequence_matches False [VNode ''Name'' []]
     [ExtractMatchingNode (Concrete ''Name'' []) ''x''] (\<lambda>p n. (None :: unit option))
   = Inr (Some [''x'' \<mapsto> Seq [VNode ''Name'' []]])
   \<and> [''x'' \<mapsto> Seq [VNode ''Name'' []]] ''x'' \<noteq> Some (Single (VNode ''Name'' []))
   \<and> sequence_matches False [VNode ''Name'' [], VNone]
     [ExtractMatchingNode (Concrete ''Name'' []) ''x'', DoNotCare] (\<lambda>p n. (None :: unit option))
   = Inr (Some [''x'' \<mapsto> Seq [VNode ''Name'' [], VNone]])
   \<and> sequence_matches False [VNode ''Name'' [(''value'', Single (VStr ''a''))]]
     [ExtractMatchingNode
        (Concrete ''Name'' [(''value'', ExtractMatchingNode DoNotCare ''x'')]) ''x'']
     (\<lambda>p n. (None :: unit option))
   = Inr (Some [''x'' \<mapsto> Single (VStr ''a'')])
   \<and> node_matches (VNode ''Name'' [(''value'', Single (VStr ''a''))])
     (ExtractMatchingNode
        (Concrete ''Name'' [(''value'', ExtractMatchingNode DoNotCare ''x'')]) ''x'')
     (\<lambda>p n. (None :: unit option))
   = Inr (Some [''x'' \<mapsto> Single (VNode ''Name'' [(''value'', Single (VStr ''a''))])])"
  by simp

text \<open>
  The branch of \<^verbatim>\<open>_sequence_matches\<close> behind it, for every capture around an element that
  goes to \<^verbatim>\<open>_matches\<close>: the head value decides, one value is consumed, and
  \<^verbatim>\<open>matcher.name: nodes\<close> comes first in the dictionary, before the captures of the
  element and of the continuation.
\<close>

lemma capture_of_element_in_sequence:
  assumes "ordinary_element m"
  shows "sequence_matches s (node # nodes) (ExtractMatchingNode m name # rest) lookup =
    (case matches' node m lookup of
       Inl e \<Rightarrow> Inl e
     | Inr None \<Rightarrow> Inr None
     | Inr (Some match_capture) \<Rightarrow>
         (case sequence_matches s nodes rest lookup of
            Inl e \<Rightarrow> Inl e
          | Inr None \<Rightarrow> Inr None
          | Inr (Some sequence_capture) \<Rightarrow>
              Inr (Some ([name \<mapsto> sequence_object s (node # nodes)]
                         ++ (match_capture ++ sequence_capture)))))"
proof -
  have step: "sequence_matches s (node # nodes) (m # rest) lookup
      = direct_matches s node nodes m rest lookup"
    using assms by (cases m) simp_all
  have "sequence_matches s (node # nodes) (ExtractMatchingNode m name # rest) lookup =
     (case sequence_matches s (node # nodes) (m # rest) lookup of
        Inl e \<Rightarrow> Inl e
      | Inr None \<Rightarrow> Inr None
      | Inr (Some c) \<Rightarrow> Inr (Some ([name \<mapsto> sequence_object s (node # nodes)] ++ c)))"
    by (subst sequence_matches.simps) simp
  then show ?thesis
    unfolding step by (simp split: sum.splits option.splits)
qed

section \<open>Placeholders and bare matchers at top level\<close>

text \<open>
  C3. The claim: for every pattern and resolver \<^verbatim>\<open>extract\<close> returns \<^verbatim>\<open>None\<close> when the node
  is a removal sentinel or a maybe-sentinel, as the docstrings of \<^verbatim>\<open>extract\<close> and
  \<^verbatim>\<open>matches\<close> say, and for every node when the pattern is a bare quantifier, a bare
  \<^verbatim>\<open>MatchIfTrue\<close> or a bare metadata matcher. In the code this fails for a maybe-sentinel:
  \<^verbatim>\<open>extract\<close> returns early for a \<^verbatim>\<open>RemovalSentinel\<close> only, so \<^verbatim>\<open>MaybeSentinel.DEFAULT\<close>
  reaches \<^verbatim>\<open>_matches\<close>, which answers the empty dictionary to a negation:
  \<^verbatim>\<open>extract(MaybeSentinel.DEFAULT, ~Name())\<close> is \<^verbatim>\<open>{}\<close> and \<^verbatim>\<open>matches\<close> is \<^verbatim>\<open>True\<close>.
\<close>

theorem extract_maybe_sentinel_negation:
  "extract_py VMaybe (InverseOf (Concrete ''Name'' [])) (NoResolver :: unit resolver)
     = Inr (Some Map.empty)
   \<and> extract_py VMaybe (InverseOf (Concrete ''Name'' [])) (NoResolver :: unit resolver)
     \<noteq> Inr None
   \<and> matches VMaybe (InverseOf (Concrete ''Name'' [])) (NoResolver :: unit resolver)
     = Inr True"
  by (simp add: extract_py_def matches_def)

text \<open>
  What the code does on the placeholders and on the bare matchers: \<^verbatim>\<open>None\<close> for a removal
  sentinel, \<^verbatim>\<open>None\<close> for a maybe-sentinel unless the pattern is a negation, \<^verbatim>\<open>None\<close> on
  every node for a bare quantifier, \<^verbatim>\<open>MatchIfTrue\<close> or metadata matcher.
\<close>

lemma extract_placeholders_and_bare_matchers:
  "extract_py VRemoval matcher resolver = Inr None
   \<and> extract_py VMaybe matcher resolver =
       Inr (if is_InverseOf matcher then Some Map.empty else None)
   \<and> extract_py node (AtLeastN m n) resolver = Inr None
   \<and> extract_py node (AtMostN m n) resolver = Inr None
   \<and> extract_py node (MatchIfTrue func) resolver = Inr None
   \<and> extract_py node (MatchMetadata key val) resolver = Inr None
   \<and> extract_py node (MatchMetadataIfTrue key pred) resolver = Inr None"
  by (cases matcher) (simp_all add: extract_py_def)

section \<open>AllOf on a sequence\<close>

text \<open>
  C4. The claim: for a sequence and an \<^verbatim>\<open>AllOf\<close>, the match succeeds if and only if every
  option, a sequence pattern or a \<^verbatim>\<open>MatchIfTrue\<close>, succeeds against the whole sequence.
  In the code an option that is a \<^verbatim>\<open>MatchIfTrue\<close> is never asked: for a call without
  arguments and \<^verbatim>\<open>Call(args=AllOf(MatchIfTrue(lambda v: True)))\<close>, whose only option holds
  of every value, the loop evaluates \<^verbatim>\<open>matcher.func(node)\<close> with \<^verbatim>\<open>matcher\<close> the \<^verbatim>\<open>AllOf\<close>
  and raises an \<^verbatim>\<open>AttributeError\<close>.
\<close>

theorem allof_predicate_on_sequence_raises:
  "attribute_matches (Seq []) (AllOf [MatchIfTrue (\<lambda>v. True)]) (\<lambda>p n. (None :: unit option))
     = Inl AttributeError
   \<and> extract_py
     (VNode ''Call'' [(''func'', Single (VNode ''Name'' [(''value'', Single (VStr ''f''))])),
                      (''args'', Seq [])])
     (Concrete ''Call'' [(''func'', DoNotCare), (''args'', AllOf [MatchIfTrue (\<lambda>v. True)])])
     (NoResolver :: unit resolver) = Inl AttributeError"
  by (simp add: extract_py_def)

section \<open>A capture around a quantifier\<close>

text \<open>
  C5. The claim: where the head matcher of a sequence is a capture around a quantifier,
  the match behaves as if the quantifier were unwrapped, and the name is bound to the
  values that are left. In the code this fails where no value is left: the base case of
  \<^verbatim>\<open>_sequence_matches\<close> accepts \<^verbatim>\<open>AtLeastN\<close> with \<^verbatim>\<open>n = 0\<close> and \<^verbatim>\<open>AtMostN\<close> only bare. A
  call without arguments matches \<^verbatim>\<open>Call(args=[ZeroOrMore()])\<close> and does not match
  \<^verbatim>\<open>Call(args=[SaveMatchedNode(ZeroOrMore(), "rest")])\<close>.
\<close>

theorem capture_of_quantifier_without_values:
  "extract_py
     (VNode ''Call'' [(''func'', Single (VNode ''Name'' [(''value'', Single (VStr ''f''))])),
                      (''args'', Seq [])])
     (Concrete ''Call''
        [(''func'', DoNotCare),
         (''args'', MSeq PyList [ExtractMatchingNode (AtLeastN DoNotCare 0) ''rest''])])
     (NoResolver :: unit resolver) = Inr None
   \<and> extract_py
     (VNode ''Call'' [(''func'', Single (VNode ''Name'' [(''value'', Single (VStr ''f''))])),
                      (''args'', Seq [])])
     (Concrete ''Call'' [(''func'', DoNotCare), (''args'', MSeq PyList [AtLeastN DoNotCare 0])])
     (NoResolver :: unit resolver) = Inr (Some Map.empty)"
  by (simp add: extract_py_def)

text \<open>
  Where a value is left, the code does what C5 says: the capture is unwrapped, and on
  success the name is bound to all the values that are left, under the captures of the
  rest of the match.
\<close>

lemma capture_of_quantifier_step:
  "sequence_matches s (node # nodes) (ExtractMatchingNode (AtLeastN inner n) name # rest) lookup =
     (case sequence_matches s (node # nodes) (AtLeastN inner n # rest) lookup of
        Inl e \<Rightarrow> Inl e
      | Inr None \<Rightarrow> Inr None
      | Inr (Some c) \<Rightarrow> Inr (Some ([name \<mapsto> sequence_object s (node # nodes)] ++ c)))
   \<and> sequence_matches s (node # nodes) (ExtractMatchingNode (AtMostN inner n) name # rest) lookup =
     (case sequence_matches s (node # nodes) (AtMostN inner n # rest) lookup of
        Inl e \<Rightarrow> Inl e
      | Inr None \<Rightarrow> Inr None
      | Inr (Some c) \<Rightarrow> Inr (Some ([name \<mapsto> sequence_object s (node # nodes)] ++ c)))"
  by (subst sequence_matches.simps, subst (3) sequence_matches.simps) simp

section \<open>De Morgan\<close>

lemma AllOf_options_acc:
  "AllOf_options xs acc =
     (case AllOf_options xs [] of Inl e \<Rightarrow> Inl e | Inr r \<Rightarrow> Inr (acc @ r))"
proof (induction xs arbitrary: acc)
  case Nil
  show ?case by simp
next
  case (Cons x xs)
  show ?case
  proof (cases x)
    case (OneOf os)
    then show ?thesis by simp
  next
    case (AllOf os)
    then show ?thesis
      using Cons.IH [of "acc @ os"] Cons.IH [of os] by (simp split: sum.splits)
  qed (use Cons.IH [of "acc @ [x]"] Cons.IH [of "[x]"] in \<open>simp_all split: sum.splits\<close>)
qed

lemma AllOf_options_append:
  "AllOf_options (xs @ ys) acc =
     (case AllOf_options xs acc of Inl e \<Rightarrow> Inl e | Inr acc' \<Rightarrow> AllOf_options ys acc')"
proof (induction xs arbitrary: acc)
  case Nil
  show ?case by simp
next
  case (Cons x xs)
  show ?case by (cases x) (simp_all add: Cons.IH)
qed

lemma collect_append:
  "collect (xs @ ys) =
     (case collect xs of
        Inl e \<Rightarrow> Inl e
      | Inr a \<Rightarrow> (case collect ys of Inl e \<Rightarrow> Inl e | Inr b \<Rightarrow> Inr (a @ b)))"
  by (induction xs) (simp_all split: sum.splits)

lemma invert_one:
  assumes "OneOf_options [A] [] = Inr as"
    and "collect (map DoesNotMatch as) = Inr ia"
    and "AllOf_options ia [] = Inr la"
  shows "\<exists>A'. DoesNotMatch A = Inr A' \<and> AllOf_options [A'] [] = Inr la"
proof (cases A)
  case (OneOf os)
  with assms show ?thesis by (simp add: AllOf_init_def)
next
  case (AllOf os)
  with assms show ?thesis by simp
qed (use assms in \<open>auto split: sum.splits\<close>)

lemma OneOf_options_two:
  "OneOf_options [A, B] [] = Inr ab \<Longrightarrow>
     \<exists>as bs. OneOf_options [A] [] = Inr as \<and> OneOf_options [B] [] = Inr bs \<and> ab = as @ bs"
  by (cases A; cases B) auto

text \<open>
  C6. A negation is built with \<^verbatim>\<open>DoesNotMatch\<close> (or \<^verbatim>\<open>~\<close>), a disjunction with \<^verbatim>\<open>OneOf\<close>
  (or \<^verbatim>\<open>|\<close>), a conjunction with \<^verbatim>\<open>AllOf\<close>. For all matchers \<open>A\<close> and \<open>B\<close> of which the
  negation of \<^verbatim>\<open>OneOf(A, B)\<close> can be built, the negations of \<open>A\<close> and of \<open>B\<close> and their
  \<^verbatim>\<open>AllOf\<close> can be built as well, and \<^verbatim>\<open>matches\<close> gives the same answer for the negation of
  \<^verbatim>\<open>OneOf(A, B)\<close> as for \<^verbatim>\<open>AllOf(DoesNotMatch(A), DoesNotMatch(B))\<close>, on every node and with
  every resolver.
\<close>

theorem de_morgan_negation_of_oneof:
  assumes "OneOf_init [A, B] = Inr AorB" and "DoesNotMatch AorB = Inr lhs"
  shows "\<exists>notA notB rhs. DoesNotMatch A = Inr notA \<and> DoesNotMatch B = Inr notB \<and>
           AllOf_init [notA, notB] = Inr rhs \<and>
           matches node lhs resolver = matches node rhs resolver"
proof -
  from assms(1) obtain ab where ab: "OneOf_options [A, B] [] = Inr ab" and AorB: "AorB = OneOf ab"
    by (auto simp: OneOf_init_def split: sum.splits)
  from OneOf_options_two [OF ab] obtain as bs where
    as: "OneOf_options [A] [] = Inr as" and bs: "OneOf_options [B] [] = Inr bs"
    and split: "ab = as @ bs" by blast
  from assms(2) AorB split obtain inv where
    inv: "collect (map DoesNotMatch (as @ bs)) = Inr inv" and lhs: "AllOf_init inv = Inr lhs"
    by (auto split: sum.splits)
  from inv obtain ia ib where
    ia: "collect (map DoesNotMatch as) = Inr ia" and ib: "collect (map DoesNotMatch bs) = Inr ib"
    and inv_eq: "inv = ia @ ib"
    by (auto simp: collect_append split: sum.splits)
  from lhs inv_eq obtain l where l: "AllOf_options (ia @ ib) [] = Inr l" and lhs_eq: "lhs = AllOf l"
    by (auto simp: AllOf_init_def split: sum.splits)
  from l obtain la where la: "AllOf_options ia [] = Inr la" and lb': "AllOf_options ib la = Inr l"
    by (auto simp: AllOf_options_append split: sum.splits)
  from lb' obtain lb where lb: "AllOf_options ib [] = Inr lb" and l_eq: "l = la @ lb"
    using AllOf_options_acc [of ib la] by (auto split: sum.splits)
  from invert_one [OF as ia la] obtain notA where
    notA: "DoesNotMatch A = Inr notA" and optA: "AllOf_options [notA] [] = Inr la" by blast
  from invert_one [OF bs ib lb] obtain notB where
    notB: "DoesNotMatch B = Inr notB" and optB: "AllOf_options [notB] [] = Inr lb" by blast
  have "AllOf_options ([notA] @ [notB]) [] = Inr (la @ lb)"
    using optA optB AllOf_options_acc [of "[notB]" la]
    by (simp only: AllOf_options_append sum.case)
  then have "AllOf_init [notA, notB] = Inr lhs"
    by (simp add: AllOf_init_def lhs_eq l_eq)
  with notA notB show ?thesis by blast
qed

text \<open>\<^verbatim>\<open>~(Name("True") | Name("False"))\<close> on the node \<^verbatim>\<open>Name("x")\<close>.\<close>

theorem de_morgan_negation_of_oneof_witness:
  "OneOf_init [Concrete ''Name'' [(''value'', MStr ''True'')],
               Concrete ''Name'' [(''value'', MStr ''False'')]]
     = Inr (OneOf [Concrete ''Name'' [(''value'', MStr ''True'')],
                   Concrete ''Name'' [(''value'', MStr ''False'')] :: unit matcher])
   \<and> DoesNotMatch (OneOf [Concrete ''Name'' [(''value'', MStr ''True'')],
                          Concrete ''Name'' [(''value'', MStr ''False'')]])
     = Inr (AllOf [InverseOf (Concrete ''Name'' [(''value'', MStr ''True'')]),
                   InverseOf (Concrete ''Name'' [(''value'', MStr ''False'')]) :: unit matcher])
   \<and> (\<exists>notA notB rhs.
         DoesNotMatch (Concrete ''Name'' [(''value'', MStr ''True'')]) = Inr notA \<and>
         DoesNotMatch (Concrete ''Name'' [(''value'', MStr ''False'')]) = Inr notB \<and>
         AllOf_init [notA, notB] = Inr rhs \<and>
         matches (VNode ''Name'' [(''value'', Single (VStr ''x''))])
           (AllOf [InverseOf (Concrete ''Name'' [(''value'', MStr ''True'')]),
                   InverseOf (Concrete ''Name'' [(''value'', MStr ''False'')])])
           (NoResolver :: unit resolver)
         = matches (VNode ''Name'' [(''value'', Single (VStr ''x''))]) rhs
             (NoResolver :: unit resolver))"
proof -
  have a: "OneOf_init [Concrete ''Name'' [(''value'', MStr ''True'')],
               Concrete ''Name'' [(''value'', MStr ''False'')]]
     = Inr (OneOf [Concrete ''Name'' [(''value'', MStr ''True'')],
                   Concrete ''Name'' [(''value'', MStr ''False'')] :: unit matcher])"
    by (simp add: OneOf_init_def)
  have b: "DoesNotMatch (OneOf [Concrete ''Name'' [(''value'', MStr ''True'')],
                          Concrete ''Name'' [(''value'', MStr ''False'')]])
     = Inr (AllOf [InverseOf (Concrete ''Name'' [(''value'', MStr ''True'')]),
                   InverseOf (Concrete ''Name'' [(''value'', MStr ''False'')]) :: unit matcher])"
    by (simp add: AllOf_init_def)
  note c = de_morgan_negation_of_oneof
    [OF a b, where node = "VNode ''Name'' [(''value'', Single (VStr ''x''))]"
      and resolver = "NoResolver"]
  show ?thesis by (intro conjI a b c)
qed

section \<open>Termination\<close>

text \<open>
  C7. Matching terminates on every value, every pattern and every lookup: every call of
  \<^verbatim>\<open>_sequence_matches\<close>, \<^verbatim>\<open>_attribute_matches\<close>, \<^verbatim>\<open>_metadata_matches\<close>, \<^verbatim>\<open>_node_matches\<close> and
  \<^verbatim>\<open>_matches\<close> lies in the domain of the recursion, the set of the calls from which no
  infinite chain of recursive calls starts. The calls of the quantifier branches, which
  put back an \<^verbatim>\<open>AtMostN\<close> or \<^verbatim>\<open>AtLeastN\<close> with the count less one or the quantifier as it
  is, are among them: the matchers keep their size and one value less is left. The
  measure is the triple of the size of the matchers, the rank of the function and the
  number of the values left, in the lexicographic order.
\<close>

theorem matching_terminates:
  "sequence_matches_direct_matches_attribute_matches_attribute_oneof_attribute_allof_metadata_matches_metadata_oneof_metadata_allof_node_matches_node_fields_matches'_matches_oneof_matches_allof_dom
     (Inl (Inl (Inl (s, nodes, matchers :: 'v matcher list, lookup))))
   \<and> sequence_matches_direct_matches_attribute_matches_attribute_oneof_attribute_allof_metadata_matches_metadata_oneof_metadata_allof_node_matches_node_fields_matches'_matches_oneof_matches_allof_dom
     (Inl (Inl (Inr (Inr (attribute, matcher :: 'v matcher, lookup)))))
   \<and> sequence_matches_direct_matches_attribute_matches_attribute_oneof_attribute_allof_metadata_matches_metadata_oneof_metadata_allof_node_matches_node_fields_matches'_matches_oneof_matches_allof_dom
     (Inl (Inr (Inr (Inr (node, matcher :: 'v matcher, lookup)))))
   \<and> sequence_matches_direct_matches_attribute_matches_attribute_oneof_attribute_allof_metadata_matches_metadata_oneof_metadata_allof_node_matches_node_fields_matches'_matches_oneof_matches_allof_dom
     (Inr (Inl (Inr (Inr (node, matcher :: 'v matcher, lookup)))))
   \<and> sequence_matches_direct_matches_attribute_matches_attribute_oneof_attribute_allof_metadata_matches_metadata_oneof_metadata_allof_node_matches_node_fields_matches'_matches_oneof_matches_allof_dom
     (Inr (Inr (Inl (Inr (node, matcher :: 'v matcher, lookup)))))"
  using all_calls_terminate by blast

section \<open>Metadata\<close>

text \<open>
  C8. Matching \<^verbatim>\<open>MatchMetadata(P, v)\<close> against a node fails when the lookup reports the
  metadata of \<open>P\<close> for that node as missing, whatever \<open>v\<close> is; when a value is there, the
  match succeeds, with no capture, if and only if that value equals \<open>v\<close>. This holds in
  \<^verbatim>\<open>_metadata_matches\<close> and in \<^verbatim>\<open>_node_matches\<close>, which hands the matcher to it.
\<close>

theorem match_metadata_equals:
  "metadata_matches node (MatchMetadata P v) lookup =
     Inr (case lookup P node of
            None \<Rightarrow> None
          | Some actual_value \<Rightarrow> if actual_value = v then Some Map.empty else None)
   \<and> node_matches node (MatchMetadata P v) lookup =
     Inr (case lookup P node of
            None \<Rightarrow> None
          | Some actual_value \<Rightarrow> if actual_value = v then Some Map.empty else None)"
  by (simp split: option.splits)

section \<open>Combinators without options\<close>

text \<open>
  C9. \<^verbatim>\<open>AllOf()\<close>, without options, is accepted by the constructor and matches every node,
  with no capture; \<^verbatim>\<open>OneOf()\<close> is accepted as well and matches no node.
\<close>

theorem allof_and_oneof_without_options:
  "AllOf_init [] = Inr (AllOf [])
   \<and> extract_py (VNode c fs) (AllOf []) resolver = Inr (Some Map.empty)
   \<and> matches (VNode c fs) (AllOf []) resolver = Inr True
   \<and> OneOf_init [] = Inr (OneOf [])
   \<and> extract_py node (OneOf []) resolver = Inr None
   \<and> matches node (OneOf []) resolver = Inr False"
  by (simp add: AllOf_init_def OneOf_init_def extract_py_def matches_def)

section \<open>findall and extractall\<close>

text \<open>
  C10. For every tree and every resolver, \<^verbatim>\<open>findall\<close> and \<^verbatim>\<open>extractall\<close> return an empty
  sequence, and raise nothing, when the matcher is a bare quantifier (\<^verbatim>\<open>AtLeastN\<close>,
  \<^verbatim>\<open>AtMostN\<close>), and for every matcher when the tree is a removal sentinel or a
  maybe-sentinel.
\<close>

theorem findall_extractall_empty:
  "findall tree (AtLeastN m n) resolver = Inr []
   \<and> findall tree (AtMostN m n) resolver = Inr []
   \<and> extractall tree (AtLeastN m n) resolver = Inr []
   \<and> extractall tree (AtMostN m n) resolver = Inr []
   \<and> findall (Tree VRemoval) matcher resolver = Inr []
   \<and> findall (Tree VMaybe) matcher resolver = Inr []
   \<and> extractall (Tree VRemoval) matcher resolver = Inr []
   \<and> extractall (Tree VMaybe) matcher resolver = Inr []"
  by (simp add: findall_def extractall_def find_or_extract_all_def)

end
